theory Spec2Isabelle
  imports Complex_Main
begin

section \<open>Python values shared by the three modules\<close>

text \<open>
  The exceptions the modelled code can raise. A failed \<^verbatim>\<open>assert\<close> is
  \<open>AssertionError\<close>, a missing dictionary key is \<open>KeyError\<close>, a method or
  attribute looked up on an object that lacks it is \<open>AttributeError\<close>, and item
  access on an object that does not support it is \<open>TypeError\<close>.
\<close>

datatype py_error = KeyError | AttributeError | TypeError | AssertionError

text \<open>
  A Python \<^verbatim>\<open>str\<close> is a sequence of Unicode code points; \<^verbatim>\<open>ord(c)\<close> of a
  character is the code point itself. ASCII literals of the source are written
  through \<open>str\<close>; the backslash is code point 92.
\<close>

type_synonym pystr = "nat list"

definition str :: "string \<Rightarrow> pystr" where
  "str s = map of_char s"

definition backslash :: nat where
  "backslash = 92"

subsection \<open>The built-ins \<^verbatim>\<open>hex\<close>, \<^verbatim>\<open>oct\<close> and \<^verbatim>\<open>%d\<close>\<close>

definition digit_char :: "nat \<Rightarrow> nat" where
  "digit_char d = (if d < 10 then 48 + d else 87 + d)"

fun digits_in :: "nat \<Rightarrow> nat \<Rightarrow> pystr" where
  "digits_in b n =
     (if b < 2 \<or> n < b then [digit_char n]
      else digits_in b (n div b) @ [digit_char (n mod b)])"

declare digits_in.simps [simp del]

definition py_hex :: "int \<Rightarrow> pystr" where
  "py_hex i = (if i < 0 then str ''-0x'' @ digits_in 16 (nat (- i))
               else str ''0x'' @ digits_in 16 (nat i))"

definition py_oct :: "int \<Rightarrow> pystr" where
  "py_oct i = (if i < 0 then str ''-0o'' @ digits_in 8 (nat (- i))
               else str ''0o'' @ digits_in 8 (nat i))"

section \<open>ChunkOfText: encoding a chunk of text\<close>

text \<open>
  Modelled from the spec: the class \<^verbatim>\<open>Font\<close> is not among the source files. Of a
  font the chunk uses its truth value (\<^verbatim>\<open>assert self._font\<close>) and the query
  \<^verbatim>\<open>unicode_to_character_identifier\<close>, by the spec the mapping from a character
  to its character identifier, which may differ from the code point and may be
  missing. A font is taken as the table of the identifiers of its characters; a
  character without entry has the identifier \<^verbatim>\<open>None\<close>.
\<close>

record font =
  font_truth :: bool
  cid_table :: "(nat \<times> int) list"

definition unicode_to_character_identifier :: "font \<Rightarrow> nat \<Rightarrow> int option" where
  "unicode_to_character_identifier f c = map_of (cid_table f) c"

text \<open>
  Modelled from the spec: the classes \<^verbatim>\<open>Rectangle\<close> and \<^verbatim>\<open>Color\<close> are not among
  the source files. A rectangle is an axis-aligned box given by x, y, width and
  height; of the font color the layout uses the three channels of
  \<^verbatim>\<open>to_rgb()\<close>. The chunk holds its text, font, font size and font color, and the
  bounding box that \<^verbatim>\<open>set_bounding_box\<close> stores.
\<close>

record 'a rectangle =
  x :: 'a
  y :: 'a
  width :: 'a
  height :: 'a

record 'a rgb_color =
  red :: 'a
  green :: 'a
  blue :: 'a

record 'a chunk_of_text =
  chunk_text :: pystr
  chunk_font :: font
  chunk_font_size :: "'a option"
  chunk_font_color :: "'a rgb_color"
  chunk_bounding_box :: "'a rectangle option"

text \<open>
  The first loop of \<^verbatim>\<open>_write_text_bytes\<close>: the flag starts False and the loop
  leaves at the first character whose code point is not its identifier. An
  identifier that is \<^verbatim>\<open>None\<close> differs from every code point.
\<close>

fun hex_mode :: "font \<Rightarrow> pystr \<Rightarrow> bool" where
  "hex_mode f [] = False"
| "hex_mode f (c # cs) =
     (if Some (int c) \<noteq> unicode_to_character_identifier f c then True
      else hex_mode f cs)"

text \<open>The loop of \<^verbatim>\<open>_write_text_bytes_in_hex\<close>, with \<open>sOut\<close> as accumulator.\<close>

definition hex_rep :: "int \<Rightarrow> pystr" where
  "hex_rep cid =
     (let h = drop 2 (py_hex cid)
      in if length h mod 2 = 1 then str ''0'' @ h else h)"

fun hex_loop :: "font \<Rightarrow> pystr \<Rightarrow> pystr \<Rightarrow> py_error + pystr" where
  "hex_loop f [] sOut = Inr sOut"
| "hex_loop f (c # cs) sOut =
     (case unicode_to_character_identifier f c of
        None \<Rightarrow> Inl AssertionError
      | Some cid \<Rightarrow> hex_loop f cs (sOut @ str ''<'' @ hex_rep cid @ str ''>''))"

definition write_text_bytes_in_hex :: "'a chunk_of_text \<Rightarrow> py_error + pystr" where
  "write_text_bytes_in_hex self =
     (case hex_loop (chunk_font self) (chunk_text self) [] of
        Inl e \<Rightarrow> Inl e
      | Inr sOut \<Rightarrow> Inr (str ''['' @ sOut @ str ''] TJ''))"

text \<open>The \<^verbatim>\<open>if\<close>/\<^verbatim>\<open>elif\<close> chain of \<^verbatim>\<open>_write_text_bytes_in_ascii\<close>, in its order.\<close>

definition ascii_step :: "nat \<Rightarrow> pystr" where
  "ascii_step c =
     (if c = 13 then [backslash] @ str ''r''
      else if c = 10 then [backslash] @ str ''n''
      else if c = 9 then [backslash] @ str ''t''
      else if c = 8 then [backslash] @ str ''b''
      else if c = 12 then [backslash] @ str ''f''
      else if c \<in> set (str ''('' @ str '')'' @ [backslash]) then [backslash] @ [c]
      else if 0 \<le> c \<and> c < 8 then [backslash] @ str ''00'' @ drop 2 (py_oct (int c))
      else if 8 \<le> c \<and> c < 32 then [backslash] @ str ''0'' @ drop 2 (py_oct (int c))
      else [c])"

fun ascii_loop :: "pystr \<Rightarrow> pystr \<Rightarrow> pystr" where
  "ascii_loop [] sOut = sOut"
| "ascii_loop (c # cs) sOut = ascii_loop cs (sOut @ ascii_step c)"

definition write_text_bytes_in_ascii :: "'a chunk_of_text \<Rightarrow> pystr" where
  "write_text_bytes_in_ascii self =
     str ''('' @ ascii_loop (chunk_text self) [] @ str '') Tj''"

definition write_text_bytes :: "'a chunk_of_text \<Rightarrow> py_error + pystr" where
  "write_text_bytes self =
     (if hex_mode (chunk_font self) (chunk_text self)
      then write_text_bytes_in_hex self
      else Inr (write_text_bytes_in_ascii self))"

section \<open>ChunkOfText: font resources and layout\<close>

text \<open>
  A Python \<^verbatim>\<open>dict\<close> keeps its keys in insertion order: assigning to a key that is
  present replaces the value in place, assigning to a new key appends the pair.
\<close>

fun dict_set :: "'k \<Rightarrow> 'v \<Rightarrow> ('k \<times> 'v) list \<Rightarrow> ('k \<times> 'v) list" where
  "dict_set k v [] = [(k, v)]"
| "dict_set k v (p # d) = (if fst p = k then (fst p, v) # d else p # dict_set k v d)"

text \<open>
  The operands of the content fragment that \<^verbatim>\<open>_do_layout_without_padding\<close>
  formats: the three \<^verbatim>\<open>rg\<close> channels, the font resource name and size of
  \<^verbatim>\<open>Tf\<close>, the four varying entries of the \<^verbatim>\<open>Tm\<close> matrix and the text
  operator. Their rendering with \<^verbatim>\<open>%f\<close> goes through binary floats and is left
  out; the fragment is kept as its operands.
\<close>

record 'a content =
  rg_red :: 'a
  rg_green :: 'a
  rg_blue :: 'a
  tf_name :: pystr
  tf_size :: 'a
  tm_a :: 'a
  tm_d :: 'a
  tm_x :: 'a
  tm_y :: 'a
  text_operator :: pystr

text \<open>
  Modelled from the spec: the class \<^verbatim>\<open>Page\<close> is not among the source files. Of
  a page the chunk touches \<^verbatim>\<open>page["Resources"]["Font"]\<close>, each of the two levels
  absent until created, and the content stream. The type \<open>'f\<close> is the type of the
  registered fonts, compared with \<^verbatim>\<open>==\<close>.
\<close>

record 'f resources_dict =
  fonts :: "(pystr \<times> 'f) list option"

record ('f, 'a) page =
  resources :: "'f resources_dict option"
  content_stream :: "'a content list"

definition get_font_resource_name ::
  "'f \<Rightarrow> ('f, 'a) page \<Rightarrow> pystr \<times> ('f, 'a) page" where
  "get_font_resource_name font page =
     (let res = (case resources page of None \<Rightarrow> \<lparr>fonts = None\<rparr> | Some r \<Rightarrow> r);
          font_dict = (case fonts res of None \<Rightarrow> [] | Some d \<Rightarrow> d);
          font_resource_name = map fst (filter (\<lambda>(k, v). v = font) font_dict)
      in case font_resource_name of
           n # _ \<Rightarrow> (n, page\<lparr>resources := Some (res\<lparr>fonts := Some font_dict\<rparr>)\<rparr>)
         | [] \<Rightarrow>
             (let font_index = length font_dict + 1;
                  name = str ''F'' @ digits_in 10 font_index
              in (name,
                  page\<lparr>resources :=
                    Some (res\<lparr>fonts := Some (dict_set name font font_dict)\<rparr>)\<rparr>)))"


text \<open>
  Modelled from the spec: \<^verbatim>\<open>_append_to_content_stream\<close> belongs to the base class
  of the layout elements and is not among the source files; the spec says that every
  layout call appends its fragment to the content stream of the target.
\<close>

definition append_to_content_stream :: "('f, 'a) page \<Rightarrow> 'a content \<Rightarrow> ('f, 'a) page" where
  "append_to_content_stream page c = page\<lparr>content_stream := content_stream page @ [c]\<rparr>"

text \<open>
  The list \<^verbatim>\<open>encoded_bytes\<close>: \<^verbatim>\<open>cid or 0\<close> is 0 for \<^verbatim>\<open>None\<close> and for
  the identifier 0, and the identifier otherwise.
\<close>

definition encoded_bytes :: "font \<Rightarrow> pystr \<Rightarrow> int list" where
  "encoded_bytes f t =
     map (\<lambda>c. case unicode_to_character_identifier f c of
                 None \<Rightarrow> 0
               | Some cid \<Rightarrow> if cid = 0 then 0 else cid) t"

text \<open>
  \<^verbatim>\<open>_do_layout_without_padding\<close>. The metrics provider
  \<^verbatim>\<open>GlyphLine(...).get_width_in_text_space()\<close> is a parameter. The numbers are
  \<^verbatim>\<open>Decimal\<close>s; the model takes any type with the operations used, so that what is
  proved does not depend on how \<^verbatim>\<open>Decimal\<close> rounds. The result is the returned
  rectangle or the exception raised, with the chunk and the page as they are left.
\<close>

definition do_layout_without_padding ::
  "(int list \<Rightarrow> font \<Rightarrow> 'a \<Rightarrow> 'a) \<Rightarrow> 'a chunk_of_text \<Rightarrow> (font, 'a) page \<Rightarrow>
   ('a :: {minus, inverse, numeral}) rectangle \<Rightarrow>
   (py_error + 'a rectangle) \<times> 'a chunk_of_text \<times> (font, 'a) page" where
  "do_layout_without_padding get_width_in_text_space self page bounding_box =
     (if \<not> font_truth (chunk_font self) then (Inl AssertionError, self, page)
      else
        let rgb = chunk_font_color self; COLOR_MAX = 255
        in case chunk_font_size self of
             None \<Rightarrow> (Inl AssertionError, self, page)
           | Some font_size \<Rightarrow>
               (let (name, page1) = get_font_resource_name (chunk_font self) page
                in case write_text_bytes self of
                     Inl e \<Rightarrow> (Inl e, self, page1)
                   | Inr tj \<Rightarrow>
                       (let c = \<lparr>rg_red = red rgb / COLOR_MAX,
                                 rg_green = green rgb / COLOR_MAX,
                                 rg_blue = blue rgb / COLOR_MAX,
                                 tf_name = name, tf_size = 1,
                                 tm_a = font_size, tm_d = font_size,
                                 tm_x = x bounding_box,
                                 tm_y = y bounding_box + height bounding_box - font_size,
                                 text_operator = tj\<rparr>;
                            page2 = append_to_content_stream page1 c;
                            layout_rect =
                              \<lparr>x = x bounding_box,
                               y = y bounding_box + height bounding_box - font_size,
                               width = get_width_in_text_space
                                         (encoded_bytes (chunk_font self) (chunk_text self))
                                         (chunk_font self) font_size,
                               height = font_size\<rparr>
                        in (Inr layout_rect,
                            self\<lparr>chunk_bounding_box := Some layout_rect\<rparr>, page2))))"

section \<open>LocationFilter\<close>

text \<open>
  Modelled from the spec: the event classes are not among the source files. An event
  is a text render event with its optional bounding box, an image render event with
  its position, or an event of any other kind; \<open>'e\<close> is the rest of the event.
  A listener is known by its identity \<open>'l\<close>, and delivering an event is recorded as the list of calls \<^verbatim>\<open>l._event_occurred(event)\<close> made, in order;
  the listeners are taken to return.
\<close>

datatype ('a, 'e) event =
    ChunkOfTextRenderEvent "'a rectangle option" 'e
  | ImageRenderEvent 'a 'a 'e
  | OtherEvent 'e

record ('a, 'l) location_filter =
  filter_rectangle :: "'a rectangle"
  filter_listeners :: "'l list"

definition new_location_filter :: "'a rectangle \<Rightarrow> ('a, 'l) location_filter" where
  "new_location_filter rectangle = \<lparr>filter_rectangle = rectangle, filter_listeners = []\<rparr>"

definition add_listener :: "('a, 'l) location_filter \<Rightarrow> 'l \<Rightarrow> ('a, 'l) location_filter" where
  "add_listener self listener = self\<lparr>filter_listeners := filter_listeners self @ [listener]\<rparr>"

fun notify :: "'l list \<Rightarrow> 'ev \<Rightarrow> ('l \<times> 'ev) list" where
  "notify [] event = []"
| "notify (l # ls) event = (l, event) # notify ls event"

definition event_occurred ::
  "(('a :: {plus, ord}), 'l) location_filter \<Rightarrow> ('a, 'e) event \<Rightarrow>
   py_error + ('l \<times> ('a, 'e) event) list" where
  "event_occurred self event =
     (let r = filter_rectangle self
      in case event of
           ChunkOfTextRenderEvent bounding_box _ \<Rightarrow>
             (case bounding_box of
                None \<Rightarrow> Inl AssertionError
              | Some bb \<Rightarrow>
                  if (x r < x bb \<and> x bb < x r + width r)
                     \<and> (y r < y bb \<and> y bb < y r + height r)
                  then Inr (notify (filter_listeners self) event)
                  else Inr [])
         | ImageRenderEvent ex ey _ \<Rightarrow>
             if (x r < ex \<and> ex < x r + width r) \<and> (y r < ey \<and> ey < y r + height r)
             then Inr (notify (filter_listeners self) event)
             else Inr []
         | OtherEvent _ \<Rightarrow> Inr (notify (filter_listeners self) event))"

section \<open>DefaultFontDictionaryTransformer\<close>

text \<open>
  The untyped nodes. A dictionary is keyed by names and keeps its pairs in insertion
  order; a key is written as the \<^verbatim>\<open>name\<close> of its \<^verbatim>\<open>PDFName\<close>. The values that
  the root transformer returns live in the same type.
\<close>

datatype pdf_object =
    PDFName string
  | PDFNull
  | PDFNumber int
  | PDFString string
  | PDFArray "pdf_object list"
  | PDFDictionary "(string \<times> pdf_object) list"

datatype font_variant =
  TrueTypeFont | FontType0 | FontType1 | FontType3 | CIDFontType0 | CIDFontType2

text \<open>
  Modelled from the spec: the six font classes are not among the source files. By the
  spec a typed object carries a reference to its parent, the listeners attached to it
  and the attributes set on it by key; a new one has no parent, no listener and no
  attribute. \<open>'p\<close> is the type of the parent handed in by the caller and
  \<open>'l\<close> the type of the listeners.
\<close>

record ('p, 'l) font_obj =
  variant :: font_variant
  parent :: "'p option"
  event_listeners :: "'l list"
  entries :: "(string \<times> pdf_object) list"

definition new_font :: "font_variant \<Rightarrow> ('p, 'l) font_obj" where
  "new_font v = \<lparr>variant = v, parent = None, event_listeners = [], entries = []\<rparr>"

text \<open>
  What a call leaves behind besides its result: the lines printed, and the calls made
  to the root transformer with their four arguments and their result, in order.
  The root transformer \<^verbatim>\<open>self.get_root_transformer().transform\<close> is a parameter:
  a function of the value, the parent object as it is at the call, the context and
  the listeners, that returns a value or raises.
\<close>

record ('p, 'l, 'c) rt_call =
  call_value :: pdf_object
  call_parent :: "('p, 'l) font_obj option"
  call_context :: "'c option"
  call_listeners :: "'l list"
  call_result :: "py_error + pdf_object"

record ('p, 'l, 'c) effects =
  printed :: "string list"
  rt_calls :: "('p, 'l, 'c) rt_call list"

type_synonym ('p, 'l, 'c) root_transformer =
  "pdf_object \<Rightarrow> ('p, 'l) font_obj option \<Rightarrow> 'c option \<Rightarrow> 'l list \<Rightarrow> py_error + pdf_object"

definition can_be_transformed :: "pdf_object \<Rightarrow> bool" where
  "can_be_transformed object =
     (case object of
        PDFDictionary d \<Rightarrow>
          (case map_of d ''Type'' of None \<Rightarrow> False | Some t \<Rightarrow> t = PDFName ''Font'')
      | _ \<Rightarrow> False)"

text \<open>
  \<^verbatim>\<open>object_to_transform[PDFName("Subtype")].name\<close>: the lookup raises on a missing
  key, and \<^verbatim>\<open>name\<close> is an attribute of names only.
\<close>

definition subtype_name_of :: "pdf_object \<Rightarrow> py_error + string" where
  "subtype_name_of object =
     (case object of
        PDFDictionary d \<Rightarrow>
          (case map_of d ''Subtype'' of
             None \<Rightarrow> Inl KeyError
           | Some (PDFName n) \<Rightarrow> Inr n
           | Some _ \<Rightarrow> Inl AttributeError)
      | _ \<Rightarrow> Inl TypeError)"

definition select_font :: "string \<Rightarrow> ('p, 'l) font_obj option" where
  "select_font subtype_name =
     (if subtype_name = ''TrueType'' then Some (new_font TrueTypeFont)
      else if subtype_name = ''Type0'' then Some (new_font FontType0)
      else if subtype_name = ''Type1'' then Some (new_font FontType1)
      else if subtype_name = ''Type3'' then Some (new_font FontType3)
      else if subtype_name = ''CIDFontType0'' then Some (new_font CIDFontType0)
      else if subtype_name = ''CIDFontType2'' then Some (new_font CIDFontType2)
      else None)"

text \<open>The loop \<^verbatim>\<open>for l in event_listeners: font_obj.add_event_listener(l)\<close>.\<close>

fun add_event_listeners ::
  "'l list \<Rightarrow> ('p, 'l) font_obj option \<Rightarrow> py_error + ('p, 'l) font_obj option" where
  "add_event_listeners [] font_obj = Inr font_obj"
| "add_event_listeners (l # ls) None = Inl AttributeError"
| "add_event_listeners (l # ls) (Some f) =
     add_event_listeners ls (Some (f\<lparr>event_listeners := event_listeners f @ [l]\<rparr>))"

text \<open>
  The loop over \<^verbatim>\<open>object_to_transform.items()\<close>. The root transformer is called
  with the empty listener list; the assignment \<^verbatim>\<open>font_obj[k.name] = v\<close> raises when
  \<^verbatim>\<open>font_obj\<close> is \<^verbatim>\<open>None\<close>.
\<close>

fun convert_pairs ::
  "('p, 'l, 'c) root_transformer \<Rightarrow> 'c option \<Rightarrow> (string \<times> pdf_object) list \<Rightarrow>
   ('p, 'l) font_obj option \<Rightarrow> ('p, 'l, 'c) effects \<Rightarrow>
   (py_error + ('p, 'l) font_obj option) \<times> ('p, 'l, 'c) effects" where
  "convert_pairs rt context [] font_obj eff = (Inr font_obj, eff)"
| "convert_pairs rt context ((k, v) # kvs) font_obj eff =
     (if k = ''Parent'' then convert_pairs rt context kvs font_obj eff
      else
        let r = rt v font_obj context [];
            eff1 = eff\<lparr>rt_calls := rt_calls eff @
                     [\<lparr>call_value = v, call_parent = font_obj, call_context = context,
                       call_listeners = [], call_result = r\<rparr>]\<rparr>
        in case r of
             Inl e \<Rightarrow> (Inl e, eff1)
           | Inr v1 \<Rightarrow>
               if v1 \<noteq> PDFNull then
                 (case font_obj of
                    None \<Rightarrow> (Inl TypeError, eff1)
                  | Some f \<Rightarrow>
                      convert_pairs rt context kvs
                        (Some (f\<lparr>entries := dict_set k v1 (entries f)\<rparr>)) eff1)
               else convert_pairs rt context kvs font_obj eff1)"

definition transform ::
  "('p, 'l, 'c) root_transformer \<Rightarrow> pdf_object \<Rightarrow> 'p \<Rightarrow> 'c option \<Rightarrow> 'l list \<Rightarrow>
   (py_error + ('p, 'l) font_obj option) \<times> ('p, 'l, 'c) effects" where
  "transform rt object_to_transform parent_object context listeners =
     (case subtype_name_of object_to_transform of
        Inl e \<Rightarrow> (Inl e, \<lparr>printed = [], rt_calls = []\<rparr>)
      | Inr subtype_name \<Rightarrow>
          (let font_obj = select_font subtype_name;
               eff = \<lparr>printed = (if font_obj = None
                                  then [''Unsupported font type '' @ subtype_name] else []),
                      rt_calls = []\<rparr>;
               font_obj = (case font_obj of
                             None \<Rightarrow> None
                           | Some f \<Rightarrow> Some (f\<lparr>parent := Some parent_object\<rparr>))
           in case add_event_listeners listeners font_obj of
                Inl e \<Rightarrow> (Inl e, eff)
              | Inr font_obj \<Rightarrow>
                  (case object_to_transform of
                     PDFDictionary d \<Rightarrow> convert_pairs rt context d font_obj eff
                   | _ \<Rightarrow> (Inl TypeError, eff))))"

section \<open>Observers used in the statements\<close>

text \<open>The font table of a page, empty while one of the two levels is absent.\<close>

definition font_table :: "('f, 'a) page \<Rightarrow> (pystr \<times> 'f) list" where
  "font_table page =
     (case resources page of
        None \<Rightarrow> []
      | Some r \<Rightarrow> (case fonts r of None \<Rightarrow> [] | Some d \<Rightarrow> d))"



text \<open>
  The pairs of a dictionary that the loop of \<^verbatim>\<open>transform\<close> does not skip, and the
  relation between two states of a font object that differ in their attributes only.
\<close>

definition child_pairs :: "(string \<times> pdf_object) list \<Rightarrow> (string \<times> pdf_object) list" where
  "child_pairs d = filter (\<lambda>(k, v). k \<noteq> ''Parent'') d"

definition same_font :: "('p, 'l) font_obj \<Rightarrow> ('p, 'l) font_obj \<Rightarrow> bool" where
  "same_font f g \<longleftrightarrow> variant g = variant f \<and> parent g = parent f \<and> event_listeners g = event_listeners f"

section \<open>The escape table of the specification\<close>

text \<open>
  The table of literal mode as the specification words it: the five named control
  characters become two-character escapes, the two parentheses and the backslash get a
  backslash in front, the other code points below 8 become a backslash and three octal
  digits of which the first two are zero, the code points 8 to 31 a backslash, one zero
  and two octal digits, and every other character stands for itself.
\<close>

definition octal_digit :: "nat \<Rightarrow> nat" where
  "octal_digit d = 48 + d"

definition escape_table :: "nat \<Rightarrow> pystr" where
  "escape_table c =
     (if c = 13 then [92, 114]
      else if c = 10 then [92, 110]
      else if c = 9 then [92, 116]
      else if c = 8 then [92, 98]
      else if c = 12 then [92, 102]
      else if c = 40 \<or> c = 41 \<or> c = 92 then [92, c]
      else if c < 8 then [92, octal_digit 0, octal_digit 0, octal_digit c]
      else if c \<le> 31 then [92, octal_digit 0, octal_digit (c div 8), octal_digit (c mod 8)]
      else [c])"

section \<open>Example objects\<close>

text \<open>
  A font whose identifiers are the code points on the control characters and ASCII
  characters listed, that maps the euro sign (code point 8364) to 128 and has no
  identifier for anything else.
\<close>

definition example_font :: font where
  "example_font =
     \<lparr>font_truth = True,
      cid_table = [(7, 7), (8, 8), (9, 9), (10, 10), (12, 12), (13, 13), (31, 31),
                   (40, 40), (41, 41), (65, 65), (92, 92), (97, 97), (98, 98),
                   (8364, 128)]\<rparr>"

definition example_chunk :: "pystr \<Rightarrow> rat chunk_of_text" where
  "example_chunk t =
     \<lparr>chunk_text = t, chunk_font = example_font, chunk_font_size = Some 12,
      chunk_font_color = \<lparr>red = 255, green = 0, blue = 0\<rparr>,
      chunk_bounding_box = None\<rparr>"

definition example_width :: "int list \<Rightarrow> font \<Rightarrow> rat \<Rightarrow> rat" where
  "example_width ids f font_size = of_int (sum_list ids) * font_size / 1000"

definition empty_page :: "('f, 'a) page" where
  "empty_page = \<lparr>resources = None, content_stream = []\<rparr>"

definition example_box :: "rat rectangle" where
  "example_box = \<lparr>x = 10, y = 20, width = 100, height = 50\<rparr>"

definition example_filter :: "(int, nat) location_filter" where
  "example_filter =
     add_listener
       (add_listener (new_location_filter \<lparr>x = 0, y = 0, width = 10, height = 10\<rparr>) 1) 2"

definition echo_root_transformer :: "(nat, nat, unit) root_transformer" where
  "echo_root_transformer v p c ls = Inr v"

text \<open>
  A root transformer that turns the number 0 into \<^verbatim>\<open>PDFNull\<close> and returns every
  other value as it is, and a Type 1 font dictionary.
\<close>

definition example_root_transformer :: "(nat, nat, unit) root_transformer" where
  "example_root_transformer v p c ls = (if v = PDFNumber 0 then Inr PDFNull else Inr v)"

definition example_type1_node :: pdf_object where
  "example_type1_node =
     PDFDictionary [(''Type'', PDFName ''Font''), (''Subtype'', PDFName ''Type1''),
                    (''Parent'', PDFNumber 3), (''FirstChar'', PDFNumber 0),
                    (''LastChar'', PDFNumber 255)]"


lemmas encode_eval =
  write_text_bytes_in_ascii_def write_text_bytes_in_hex_def example_chunk_def
  example_font_def unicode_to_character_identifier_def str_def ascii_step_def backslash_def hex_rep_def py_hex_def py_oct_def
  digits_in.simps digit_char_def

section \<open>Text encoding: mode selection, unrepresentable characters, escapes\<close>

lemma hex_mode_iff:
  "hex_mode f cs \<longleftrightarrow>
     \<not> (\<forall>c \<in> set cs. unicode_to_character_identifier f c = Some (int c))"
  by (induction cs) auto

lemma hex_loop_None:
  "\<exists>c \<in> set cs. unicode_to_character_identifier f c = None \<Longrightarrow>
   hex_loop f cs acc = Inl AssertionError"
  by (induction cs arbitrary: acc) (auto split: option.splits)

lemma ascii_loop_concat: "ascii_loop cs acc = acc @ concat (map ascii_step cs)"
  by (induction cs arbitrary: acc) auto

lemma digits_in_small: "n < b \<Longrightarrow> digits_in b n = [digit_char n]"
  by (simp add: digits_in.simps)

lemma digits_in_two:
  "2 \<le> b \<Longrightarrow> b \<le> n \<Longrightarrow> n < b * b \<Longrightarrow>
   digits_in b n = [digit_char (n div b), digit_char (n mod b)]"
  apply (subst digits_in.simps)
  apply (simp add: digits_in_small)
  by (simp add: digits_in_small less_mult_imp_div_less)

lemma ascii_step_table: "ascii_step c = escape_table c"
proof -
  consider "c < 8" | "8 \<le> c" "c < 32" | "32 \<le> c" by linarith
  then show ?thesis
  proof cases
    case 1
    then show ?thesis
      by (simp add: ascii_step_def escape_table_def backslash_def str_def py_oct_def
          digits_in_small digit_char_def octal_digit_def)
  next
    case 2
    then have d: "digits_in 8 c = [digit_char (c div 8), digit_char (c mod 8)]"
      by (intro digits_in_two) simp_all
    from 2 have "c div 8 < 10" "c mod 8 < 10" by simp_all
    with 2 d show ?thesis
      by (simp add: ascii_step_def escape_table_def backslash_def str_def py_oct_def
          digit_char_def octal_digit_def)
  next
    case 3
    then show ?thesis
      by (auto simp add: ascii_step_def escape_table_def backslash_def str_def)
  qed
qed

text \<open>
  C3. \<^verbatim>\<open>_write_text_bytes\<close> encodes the chunk in literal mode if and only if the
  identifier of every character of the text under the font is its code point, and in
  hex mode otherwise; the whole chunk goes through one of the two encoders, and the
  two never give the same result.
\<close>

theorem write_text_bytes_mode:
  "write_text_bytes self =
     (if \<forall>c \<in> set (chunk_text self).
           unicode_to_character_identifier (chunk_font self) c = Some (int c)
      then Inr (write_text_bytes_in_ascii self)
      else write_text_bytes_in_hex self)
   \<and> write_text_bytes_in_hex self \<noteq> Inr (write_text_bytes_in_ascii self)"
  by (auto simp: write_text_bytes_def hex_mode_iff write_text_bytes_in_hex_def
      write_text_bytes_in_ascii_def str_def split: sum.splits)

theorem write_text_bytes_mode_witness:
  "write_text_bytes (example_chunk (str ''a(b'')) = Inr ([40, 97, 92, 40, 98] @ str '') Tj'')
   \<and> write_text_bytes (example_chunk [97, 8364, 10]) = Inr (str ''[<61><80><0a>] TJ'')"
  using write_text_bytes_mode [of "example_chunk (str ''a(b'')"]
    write_text_bytes_mode [of "example_chunk [97, 8364, 10]"]
  by (simp add: encode_eval)

text \<open>
  C4. When some character of the text has no identifier under the font,
  \<^verbatim>\<open>_write_text_bytes\<close> raises (the assertion of the hex encoder fails) and returns
  no operator string.
\<close>

theorem unrepresentable_character_is_fatal:
  assumes "\<exists>c \<in> set (chunk_text self).
             unicode_to_character_identifier (chunk_font self) c = None"
  shows "write_text_bytes self = Inl AssertionError"
proof -
  from assms have "hex_mode (chunk_font self) (chunk_text self)"
    unfolding hex_mode_iff by force
  moreover from assms
  have "hex_loop (chunk_font self) (chunk_text self) [] = Inl AssertionError"
    by (rule hex_loop_None)
  ultimately show ?thesis
    by (simp add: write_text_bytes_def write_text_bytes_in_hex_def)
qed

theorem unrepresentable_character_is_fatal_witness:
  "(\<exists>c \<in> set (chunk_text (example_chunk [97, 8365, 98])).
      unicode_to_character_identifier (chunk_font (example_chunk [97, 8365, 98])) c = None)
   \<and> write_text_bytes (example_chunk [97, 8365, 98]) = Inl AssertionError"
proof -
  have h: "\<exists>c \<in> set (chunk_text (example_chunk [97, 8365, 98])).
      unicode_to_character_identifier (chunk_font (example_chunk [97, 8365, 98])) c = None"
    by (simp add: example_chunk_def example_font_def unicode_to_character_identifier_def)
  from h unrepresentable_character_is_fatal [OF h] show ?thesis by blast
qed

text \<open>
  C6. In literal mode every character of the text is replaced by its entry in the
  escape table, the entries stand in the order of the characters, and the result is
  put between parentheses and followed by the operator \<^verbatim>\<open>Tj\<close>.
\<close>

theorem literal_mode_escapes:
  "write_text_bytes_in_ascii self =
     str ''('' @ concat (map escape_table (chunk_text self)) @ str '') Tj''"
proof -
  have "ascii_step = escape_table"
    by (rule ext) (rule ascii_step_table)
  then show ?thesis
    by (simp add: write_text_bytes_in_ascii_def ascii_loop_concat)
qed

theorem literal_mode_escapes_witness:
  "write_text_bytes_in_ascii (example_chunk [13, 10, 9, 8, 12, 40, 41, 92, 7, 31, 65]) =
     str ''('' @ [92, 114, 92, 110, 92, 116, 92, 98, 92, 102, 92, 40, 92, 41, 92, 92,
                 92, 48, 48, 55, 92, 48, 51, 55, 65] @ str '') Tj''"
  using literal_mode_escapes [of "example_chunk [13, 10, 9, 8, 12, 40, 41, 92, 7, 31, 65]"]
  by (simp add: example_chunk_def escape_table_def octal_digit_def)

section \<open>Layout: the occupied rectangle\<close>

lemma hex_loop_ids:
  "hex_loop f cs acc = Inr s \<Longrightarrow>
   \<exists>ids. map (unicode_to_character_identifier f) cs = map Some ids
        \<and> s = acc @ concat (map (\<lambda>i. str ''<'' @ hex_rep i @ str ''>'') ids)"
proof (induction cs arbitrary: acc)
  case Nil
  then show ?case by simp
next
  case (Cons c cs)
  from Cons.prems obtain cid where c: "unicode_to_character_identifier f c = Some cid"
    and r: "hex_loop f cs (acc @ str ''<'' @ hex_rep cid @ str ''>'') = Inr s"
    by (auto split: option.splits)
  from Cons.IH [OF r] obtain ids where
    "map (unicode_to_character_identifier f) cs = map Some ids"
    "s = (acc @ str ''<'' @ hex_rep cid @ str ''>'') @ concat (map (\<lambda>i. str ''<'' @ hex_rep i @ str ''>'') ids)"
    by blast
  with c have "map (unicode_to_character_identifier f) (c # cs) = map Some (cid # ids)
    \<and> s = acc @ concat (map (\<lambda>i. str ''<'' @ hex_rep i @ str ''>'') (cid # ids))"
    by simp
  then show ?case by blast
qed

lemma ids_code_points:
  "map (unicode_to_character_identifier f) cs = map Some ids \<Longrightarrow>
   hex_mode f cs \<longleftrightarrow> ids \<noteq> map int cs"
proof (induction cs arbitrary: ids)
  case Nil
  then show ?case by simp
next
  case (Cons c cs)
  then show ?case by (cases ids) auto
qed

lemma no_hex_mode_ids:
  "\<not> hex_mode f cs \<Longrightarrow> map (unicode_to_character_identifier f) cs = map Some (map int cs)"
  by (simp add: hex_mode_iff)

lemma write_text_bytes_ids:
  assumes "write_text_bytes self = Inr tj"
  shows "\<exists>ids. map (unicode_to_character_identifier (chunk_font self)) (chunk_text self) = map Some ids
     \<and> tj = (if ids = map int (chunk_text self) then write_text_bytes_in_ascii self
             else str ''['' @ concat (map (\<lambda>i. str ''<'' @ hex_rep i @ str ''>'') ids) @ str ''] TJ'')"
proof (cases "hex_mode (chunk_font self) (chunk_text self)")
  case True
  with assms obtain s where s: "hex_loop (chunk_font self) (chunk_text self) [] = Inr s"
    and tj: "tj = str ''['' @ s @ str ''] TJ''"
    by (auto simp: write_text_bytes_def write_text_bytes_in_hex_def split: sum.splits)
  from hex_loop_ids [OF s] obtain ids where
    ids: "map (unicode_to_character_identifier (chunk_font self)) (chunk_text self) = map Some ids"
    and "s = concat (map (\<lambda>i. str ''<'' @ hex_rep i @ str ''>'') ids)"
    by auto
  moreover from ids_code_points [OF ids] True have "ids \<noteq> map int (chunk_text self)" by simp
  ultimately show ?thesis using tj by auto
next
  case False
  with assms have "tj = write_text_bytes_in_ascii self"
    by (simp add: write_text_bytes_def)
  with no_hex_mode_ids [OF False] show ?thesis by auto
qed

lemma encoded_bytes_ids:
  "map (unicode_to_character_identifier f) t = map Some ids \<Longrightarrow> encoded_bytes f t = ids"
proof (induction t arbitrary: ids)
  case Nil
  then show ?case by (simp add: encoded_bytes_def)
next
  case (Cons c cs)
  then show ?case by (cases ids) (auto simp: encoded_bytes_def)
qed

lemma layout_returned:
  assumes "do_layout_without_padding get_width self page bb = (Inr r, self1, page1)"
  shows "\<exists>fs ids.
      chunk_font_size self = Some fs
    \<and> map (unicode_to_character_identifier (chunk_font self)) (chunk_text self) = map Some ids
    \<and> r = \<lparr>x = x bb, y = y bb + height bb - fs,
           width = get_width ids (chunk_font self) fs, height = fs\<rparr>
    \<and> chunk_bounding_box self1 = Some r
    \<and> write_text_bytes self =
        Inr (if ids = map int (chunk_text self) then write_text_bytes_in_ascii self
             else str ''['' @ concat (map (\<lambda>i. str ''<'' @ hex_rep i @ str ''>'') ids)
                  @ str ''] TJ'')"
proof -
  from assms obtain fs where fs: "chunk_font_size self = Some fs"
    by (auto simp: do_layout_without_padding_def Let_def split: if_splits option.splits)
  from assms fs obtain tj where tj: "write_text_bytes self = Inr tj"
    by (auto simp: do_layout_without_padding_def Let_def
        split: if_splits prod.splits sum.splits)
  from write_text_bytes_ids [OF tj] obtain ids where
    ids: "map (unicode_to_character_identifier (chunk_font self)) (chunk_text self)
            = map Some ids"
    and enc: "tj = (if ids = map int (chunk_text self) then write_text_bytes_in_ascii self
             else str ''['' @ concat (map (\<lambda>i. str ''<'' @ hex_rep i @ str ''>'') ids)
                  @ str ''] TJ'')"
    by blast
  from assms fs tj have "r = \<lparr>x = x bb, y = y bb + height bb - fs,
           width = get_width (encoded_bytes (chunk_font self) (chunk_text self))
                     (chunk_font self) fs,
           height = fs\<rparr>
    \<and> chunk_bounding_box self1 = Some r"
    by (auto simp: do_layout_without_padding_def Let_def split: if_splits prod.splits)
  with encoded_bytes_ids [OF ids] fs ids tj enc show ?thesis by auto
qed

lemma layout_example:
  "do_layout_without_padding example_width (example_chunk [97, 8364]) empty_page example_box =
  (Inr \<lparr>x = 10, y = 58, width = 27 / 10, height = 12\<rparr>,
   example_chunk [97, 8364]
     \<lparr>chunk_bounding_box := Some \<lparr>x = 10, y = 58, width = 27 / 10, height = 12\<rparr>\<rparr>,
   \<lparr>resources = Some \<lparr>fonts = Some [(str ''F1'', example_font)]\<rparr>,
    content_stream =
      [\<lparr>rg_red = 1, rg_green = 0, rg_blue = 0, tf_name = str ''F1'', tf_size = 1,
        tm_a = 12, tm_d = 12, tm_x = 10, tm_y = 58,
        text_operator = str ''[<61><80>] TJ''\<rparr>]\<rparr>)"
  by (simp add: do_layout_without_padding_def get_font_resource_name_def empty_page_def
      example_box_def append_to_content_stream_def encoded_bytes_def example_width_def
      write_text_bytes_def encode_eval Let_def)

lemma hex_loop_total:
  "map (unicode_to_character_identifier f) cs = map Some ids \<Longrightarrow>
   hex_loop f cs acc = Inr (acc @ concat (map (\<lambda>i. str ''<'' @ hex_rep i @ str ''>'') ids))"
proof (induction cs arbitrary: ids acc)
  case Nil
  then show ?case by simp
next
  case (Cons c cs)
  then show ?case by (cases ids) auto
qed

lemma write_text_bytes_total:
  assumes "map (unicode_to_character_identifier (chunk_font self)) (chunk_text self)
             = map Some ids"
  shows "\<exists>tj. write_text_bytes self = Inr tj"
  using hex_loop_total [OF assms, of "[]"]
  by (simp add: write_text_bytes_def write_text_bytes_in_hex_def)

lemma layout_total:
  assumes "font_truth (chunk_font self)" and "chunk_font_size self = Some fs"
    and "map (unicode_to_character_identifier (chunk_font self)) (chunk_text self)
           = map Some ids"
  shows "\<exists>page2. do_layout_without_padding get_width self page bb =
           (Inr \<lparr>x = x bb, y = y bb + height bb - fs,
                 width = get_width ids (chunk_font self) fs, height = fs\<rparr>,
            self\<lparr>chunk_bounding_box :=
                   Some \<lparr>x = x bb, y = y bb + height bb - fs,
                         width = get_width ids (chunk_font self) fs, height = fs\<rparr>\<rparr>,
            page2)"
proof -
  from write_text_bytes_total [OF assms(3)] obtain tj where "write_text_bytes self = Inr tj"
    by blast
  with assms(1,2) encoded_bytes_ids [OF assms(3)] show ?thesis
    by (simp add: do_layout_without_padding_def Let_def split: prod.splits)
qed

text \<open>
  C9. Whenever \<^verbatim>\<open>_do_layout_without_padding\<close> returns a rectangle, every character
  of the text has an identifier under the font, and with \<open>ids\<close> the sequence of these
  identifiers: the rectangle has the x of the bounding box, the y
  \<^verbatim>\<open>bounding_box.y + bounding_box.height - font_size\<close>, the font size as height
  and as width what the metrics provider gives for \<open>ids\<close>, the font and the font
  size; the same rectangle is stored as the bounding box of the chunk; and the text
  operator of the call is the encoding of the same \<open>ids\<close>, literal when they are the
  code points and in hex otherwise. And the call does return this rectangle, and
  stores it, whenever the font is true, the font size is set and every character of
  the text has an identifier under the font.
\<close>

theorem layout_rectangle:
  "(do_layout_without_padding get_width self page bb = (Inr r, self1, page1) \<longrightarrow>
     (\<exists>fs ids.
        chunk_font_size self = Some fs
      \<and> map (unicode_to_character_identifier (chunk_font self)) (chunk_text self)
          = map Some ids
      \<and> r = \<lparr>x = x bb, y = y bb + height bb - fs,
             width = get_width ids (chunk_font self) fs, height = fs\<rparr>
      \<and> chunk_bounding_box self1 = Some r
      \<and> write_text_bytes self =
          Inr (if ids = map int (chunk_text self) then write_text_bytes_in_ascii self
               else str ''['' @ concat (map (\<lambda>i. str ''<'' @ hex_rep i @ str ''>'') ids)
                    @ str ''] TJ'')))
   \<and> (font_truth (chunk_font self) \<and> chunk_font_size self = Some fs0
      \<and> map (unicode_to_character_identifier (chunk_font self)) (chunk_text self)
          = map Some ids0
      \<longrightarrow>
      (\<exists>page2. do_layout_without_padding get_width self page bb =
         (Inr \<lparr>x = x bb, y = y bb + height bb - fs0,
               width = get_width ids0 (chunk_font self) fs0, height = fs0\<rparr>,
          self\<lparr>chunk_bounding_box :=
                 Some \<lparr>x = x bb, y = y bb + height bb - fs0,
                       width = get_width ids0 (chunk_font self) fs0, height = fs0\<rparr>\<rparr>,
          page2)))"
  using layout_returned layout_total by blast

theorem layout_rectangle_witness:
  "font_truth (chunk_font (example_chunk [97, 8364]))
   \<and> chunk_font_size (example_chunk [97, 8364]) = Some 12
   \<and> map (unicode_to_character_identifier (chunk_font (example_chunk [97, 8364])))
        (chunk_text (example_chunk [97, 8364])) = map Some [97, 128]
   \<and> (\<exists>page2. do_layout_without_padding example_width (example_chunk [97, 8364]) empty_page
         example_box =
       (Inr \<lparr>x = 10, y = 58, width = 27 / 10, height = 12\<rparr>,
        example_chunk [97, 8364]
          \<lparr>chunk_bounding_box := Some \<lparr>x = 10, y = 58, width = 27 / 10, height = 12\<rparr>\<rparr>,
        page2))
   \<and> fst (do_layout_without_padding example_width (example_chunk [97, 8364]) empty_page
         example_box) = Inr \<lparr>x = 10, y = 58, width = 27 / 10, height = 12\<rparr>"
proof -
  have h: "font_truth (chunk_font (example_chunk [97, 8364]))
   \<and> chunk_font_size (example_chunk [97, 8364]) = Some 12
   \<and> map (unicode_to_character_identifier (chunk_font (example_chunk [97, 8364])))
        (chunk_text (example_chunk [97, 8364])) = map Some [97, 128]"
    by (simp add: example_chunk_def example_font_def unicode_to_character_identifier_def)
  from h layout_rectangle [of example_width "example_chunk [97, 8364]" empty_page example_box
      undefined undefined undefined 12 "[97, 128]"]
  obtain page2 where run:
    "do_layout_without_padding example_width (example_chunk [97, 8364]) empty_page example_box =
       (Inr \<lparr>x = x example_box, y = y example_box + height example_box - 12,
             width = example_width [97, 128] (chunk_font (example_chunk [97, 8364])) 12,
             height = 12\<rparr>,
        example_chunk [97, 8364]
          \<lparr>chunk_bounding_box :=
             Some \<lparr>x = x example_box, y = y example_box + height example_box - 12,
                   width = example_width [97, 128] (chunk_font (example_chunk [97, 8364])) 12,
                   height = 12\<rparr>\<rparr>,
        page2)"
    by blast
  have "\<lparr>x = x example_box, y = y example_box + height example_box - 12,
         width = example_width [97, 128] (chunk_font (example_chunk [97, 8364])) 12,
         height = 12\<rparr> = \<lparr>x = 10, y = 58, width = 27 / 10, height = 12 :: rat\<rparr>"
    by (simp add: example_box_def example_width_def)
  with run h show ?thesis by auto
qed

section \<open>Font resource names\<close>





lemma get_font_resource_name_found:
  "filter (\<lambda>(k, v). v = f) (font_table page) = (n, g) # rest \<Longrightarrow>
   fst (get_font_resource_name f page) = n
   \<and> font_table (snd (get_font_resource_name f page)) = font_table page"
  by (auto simp: get_font_resource_name_def font_table_def Let_def split: option.splits list.splits)







section \<open>The location filter\<close>

lemma notify_map: "notify ls ev = map (\<lambda>l. (l, ev)) ls"
  by (induction ls) auto

lemma listeners_foldl:
  "filter_listeners (foldl add_listener f ls) = filter_listeners f @ ls"
  by (induction ls arbitrary: f) (auto simp: add_listener_def)

text \<open>
  C8. A text render event (with its bounding box) is passed to every listener of the
  filter, in the order in which they were added, if and only if the x and y of the box
  lie strictly between the lower and the upper edge of the rectangle of the filter, and
  to no listener otherwise; an image render event likewise with its own x and y; every
  event of another kind is passed to every listener. Listeners added one after the
  other to a new filter are kept in the order of the additions.
\<close>

theorem location_filter_forwarding:
  fixes self :: "('a :: {plus, ord}, 'l) location_filter"
  shows
  "event_occurred self (ChunkOfTextRenderEvent (Some bb) d) =
     Inr (if x (filter_rectangle self) < x bb
             \<and> x bb < x (filter_rectangle self) + width (filter_rectangle self)
             \<and> y (filter_rectangle self) < y bb
             \<and> y bb < y (filter_rectangle self) + height (filter_rectangle self)
          then map (\<lambda>l. (l, ChunkOfTextRenderEvent (Some bb) d)) (filter_listeners self)
          else [])
   \<and> event_occurred self (ImageRenderEvent ex ey d) =
     Inr (if x (filter_rectangle self) < ex
             \<and> ex < x (filter_rectangle self) + width (filter_rectangle self)
             \<and> y (filter_rectangle self) < ey
             \<and> ey < y (filter_rectangle self) + height (filter_rectangle self)
          then map (\<lambda>l. (l, ImageRenderEvent ex ey d)) (filter_listeners self)
          else [])
   \<and> event_occurred self (OtherEvent d) =
     Inr (map (\<lambda>l. (l, OtherEvent d)) (filter_listeners self))
   \<and> filter_listeners (foldl add_listener (new_location_filter r) ls) = ls"
  by (simp add: event_occurred_def Let_def notify_map listeners_foldl
      new_location_filter_def)

theorem location_filter_forwarding_witness:
  "event_occurred example_filter
     (ChunkOfTextRenderEvent (Some \<lparr>x = 0, y = 5, width = 3, height = 3\<rparr>) ()) = Inr []
   \<and> event_occurred example_filter
       (ChunkOfTextRenderEvent (Some \<lparr>x = 9, y = 1, width = 30, height = 30\<rparr>) ()) =
       Inr [(1, ChunkOfTextRenderEvent (Some \<lparr>x = 9, y = 1, width = 30, height = 30\<rparr>) ()),
            (2, ChunkOfTextRenderEvent (Some \<lparr>x = 9, y = 1, width = 30, height = 30\<rparr>) ())]
   \<and> event_occurred example_filter (ImageRenderEvent 1 9 ()) =
       Inr [(1, ImageRenderEvent 1 9 ()), (2, ImageRenderEvent 1 9 ())]
   \<and> event_occurred example_filter (ImageRenderEvent 1 10 ()) = Inr []
   \<and> event_occurred example_filter (OtherEvent ()) =
       Inr [(1, OtherEvent ()), (2, OtherEvent ())]"
  using location_filter_forwarding
    [of example_filter "\<lparr>x = 0, y = 5, width = 3, height = 3\<rparr>" "()" 1 9
        "\<lparr>x = 0, y = 0, width = 10, height = 10\<rparr>" "[1, 2]"]
    location_filter_forwarding
    [of example_filter "\<lparr>x = 9, y = 1, width = 30, height = 30\<rparr>" "()" 1 10
        "\<lparr>x = 0, y = 0, width = 10, height = 10\<rparr>" "[1, 2]"]
  by (simp add: example_filter_def add_listener_def new_location_filter_def)

section \<open>The font dictionary transformer: nodes without known subtype\<close>

text \<open>
  C10. A dictionary with \<^verbatim>\<open>Type = Font\<close> and no \<^verbatim>\<open>Subtype\<close> key is accepted by
  \<^verbatim>\<open>can_be_transformed\<close>, and \<^verbatim>\<open>transform\<close> raises \<^verbatim>\<open>KeyError\<close> on it before
  anything is printed and before the root transformer is called.
\<close>

theorem transform_without_subtype:
  assumes "map_of d ''Type'' = Some (PDFName ''Font'')" and "map_of d ''Subtype'' = None"
  shows "can_be_transformed (PDFDictionary d)
    \<and> transform rt (PDFDictionary d) parent_object context listeners
        = (Inl KeyError, \<lparr>printed = [], rt_calls = []\<rparr>)"
  using assms by (simp add: can_be_transformed_def transform_def subtype_name_of_def)

theorem transform_without_subtype_witness:
  "map_of [(''Type'', PDFName ''Font''), (''BaseFont'', PDFName ''Helvetica'')] ''Type''
     = Some (PDFName ''Font'')
   \<and> map_of [(''Type'', PDFName ''Font''), (''BaseFont'', PDFName ''Helvetica'')] ''Subtype''
     = None
   \<and> can_be_transformed
       (PDFDictionary [(''Type'', PDFName ''Font''), (''BaseFont'', PDFName ''Helvetica'')])
   \<and> transform echo_root_transformer
       (PDFDictionary [(''Type'', PDFName ''Font''), (''BaseFont'', PDFName ''Helvetica'')])
       0 None [1]
     = (Inl KeyError, \<lparr>printed = [], rt_calls = []\<rparr>)"
proof -
  have a: "map_of [(''Type'', PDFName ''Font''), (''BaseFont'', PDFName ''Helvetica'')]
             ''Type'' = Some (PDFName ''Font'')"
    by simp
  have b: "map_of [(''Type'', PDFName ''Font''), (''BaseFont'', PDFName ''Helvetica'')]
             ''Subtype'' = None"
    by simp
  from a b transform_without_subtype [OF a b, of echo_root_transformer 0 None "[1]"]
  show ?thesis by blast
qed

text \<open>
  C1. On the dictionary with \<^verbatim>\<open>Type = Font\<close> and the unknown subtype
  \<^verbatim>\<open>MMType1\<close>, called with one listener, \<^verbatim>\<open>transform\<close> prints the diagnostic
  and then raises \<^verbatim>\<open>AttributeError\<close>, whatever the root transformer, the parent
  and the context are: the listener is added to a font object that is \<^verbatim>\<open>None\<close>.
\<close>

theorem transform_unknown_subtype_raises:
  "transform rt
     (PDFDictionary [(''Type'', PDFName ''Font''), (''Subtype'', PDFName ''MMType1'')])
     parent_object context [l]
   = (Inl AttributeError,
      \<lparr>printed = [''Unsupported font type MMType1''], rt_calls = []\<rparr>)"
  by (simp add: transform_def subtype_name_of_def select_font_def)

text \<open>
  Without listeners the same node reaches the loop over its pairs, and the first
  child that the root transformer does not turn into \<^verbatim>\<open>PDFNull\<close> is assigned to
  the font object that is \<^verbatim>\<open>None\<close>.
\<close>

lemma transform_unknown_subtype_no_listener:
  "rt (PDFName ''Font'') None context [] = Inr v \<Longrightarrow> v \<noteq> PDFNull \<Longrightarrow>
   fst (transform rt
     (PDFDictionary [(''Type'', PDFName ''Font''), (''Subtype'', PDFName ''MMType1'')])
     parent_object context [])
   = Inl TypeError"
  by (simp add: transform_def subtype_name_of_def select_font_def)

section \<open>The font dictionary transformer: children and attributes\<close>

lemma add_event_listeners_Some:
  "add_event_listeners ls (Some f) = Inr (Some (f\<lparr>event_listeners := event_listeners f @ ls\<rparr>))"
  by (induction ls arbitrary: f) auto

lemma map_of_dict_set: "map_of (dict_set k v d) = (map_of d)(k \<mapsto> v)"
  by (induction d) (auto simp: fun_eq_iff)

lemma convert_pairs_calls:
  assumes "convert_pairs rt ctx kvs (Some f) eff = (res, eff1)"
  shows "\<exists>new. rt_calls eff1 = rt_calls eff @ new \<and> printed eff1 = printed eff
     \<and> (\<forall>c \<in> set new. call_listeners c = [] \<and> call_context c = ctx
           \<and> (\<exists>g. call_parent c = Some g \<and> same_font f g))
     \<and> map call_value new = take (length new) (map snd (child_pairs kvs))
     \<and> (\<forall>fo. res = Inr fo \<longrightarrow> map call_value new = map snd (child_pairs kvs)
             \<and> (\<exists>g. fo = Some g \<and> same_font f g))"
  using assms
proof (induction kvs arbitrary: f eff)
  case Nil
  then show ?case by (auto simp: child_pairs_def same_font_def)
next
  case (Cons kv kvs)
  obtain k v where kv: "kv = (k, v)" by (cases kv)
  show ?case
  proof (cases "k = ''Parent''")
    case True
    with Cons.prems kv have "convert_pairs rt ctx kvs (Some f) eff = (res, eff1)" by simp
    from Cons.IH [OF this] show ?thesis using True kv by (simp add: child_pairs_def)
  next
    case False
    let ?c = "\<lparr>call_value = v, call_parent = Some f, call_context = ctx,
               call_listeners = [], call_result = rt v (Some f) ctx []\<rparr>"
    let ?eff = "eff\<lparr>rt_calls := rt_calls eff @ [?c]\<rparr>"
    have c_ok: "call_listeners ?c = [] \<and> call_context ?c = ctx \<and> (\<exists>g. call_parent ?c = Some g \<and> same_font f g)"
      by (simp add: same_font_def)
    show ?thesis
    proof (cases "rt v (Some f) ctx []")
      case (Inl e)
      with Cons.prems kv False have "res = Inl e" "eff1 = ?eff"
        by (simp_all add: Let_def)
      then have "rt_calls eff1 = rt_calls eff @ [?c] \<and> printed eff1 = printed eff
         \<and> (\<forall>c \<in> set [?c]. call_listeners c = [] \<and> call_context c = ctx
           \<and> (\<exists>g. call_parent c = Some g \<and> same_font f g))
         \<and> map call_value [?c] = take (length [?c]) (map snd (child_pairs (kv # kvs)))
         \<and> (\<forall>fo. res = Inr fo \<longrightarrow> map call_value [?c] = map snd (child_pairs (kv # kvs))
             \<and> (\<exists>g. fo = Some g \<and> same_font f g))"
        using kv False by (simp add: child_pairs_def same_font_def)
      then show ?thesis by blast
    next
      case (Inr v1)
      define f1 where "f1 = (if v1 \<noteq> PDFNull then f\<lparr>entries := dict_set k v1 (entries f)\<rparr> else f)"
      have sf: "same_font f1 = same_font f"
        by (auto simp: f1_def same_font_def fun_eq_iff)
      from Cons.prems kv False Inr have "convert_pairs rt ctx kvs (Some f1) ?eff = (res, eff1)"
        by (simp add: Let_def f1_def split: if_splits)
      from Cons.IH [OF this] obtain new where new:
        "rt_calls eff1 = rt_calls ?eff @ new" "printed eff1 = printed ?eff"
        "\<forall>c \<in> set new. call_listeners c = [] \<and> call_context c = ctx
           \<and> (\<exists>g. call_parent c = Some g \<and> same_font f1 g)"
        "map call_value new = take (length new) (map snd (child_pairs kvs))"
        "\<forall>fo. res = Inr fo \<longrightarrow> map call_value new = map snd (child_pairs kvs)
             \<and> (\<exists>g. fo = Some g \<and> same_font f1 g)"
        by blast
      have "rt_calls eff1 = rt_calls eff @ (?c # new) \<and> printed eff1 = printed eff
         \<and> (\<forall>c \<in> set (?c # new). call_listeners c = [] \<and> call_context c = ctx
           \<and> (\<exists>g. call_parent c = Some g \<and> same_font f g))
         \<and> map call_value (?c # new) = take (length (?c # new)) (map snd (child_pairs (kv # kvs)))
         \<and> (\<forall>fo. res = Inr fo \<longrightarrow> map call_value (?c # new) = map snd (child_pairs (kv # kvs))
             \<and> (\<exists>g. fo = Some g \<and> same_font f g))"
        using new kv False c_ok unfolding sf by (simp add: child_pairs_def)
      then show ?thesis by blast
    qed
  qed
qed

lemma transform_known:
  fixes rt :: "('p, 'l, 'c) root_transformer" and f0 :: "('p, 'l) font_obj"
  assumes "map_of d ''Subtype'' = Some (PDFName s)" and "select_font s = Some f0"
  shows "transform rt (PDFDictionary d) p ctx ls =
     convert_pairs rt ctx d (Some (f0\<lparr>parent := Some p, event_listeners := event_listeners f0 @ ls\<rparr>))
       \<lparr>printed = [], rt_calls = []\<rparr>"
  using assms by (simp add: transform_def subtype_name_of_def add_event_listeners_Some)

lemma select_font_new:
  "select_font s = Some f0 \<Longrightarrow> parent f0 = None \<and> event_listeners f0 = [] \<and> entries f0 = []"
  by (auto simp: select_font_def new_font_def split: if_splits)

lemma transform_example: "transform example_root_transformer example_type1_node 0 None [7] =
  (Inr (Some \<lparr>variant = FontType1, parent = Some 0, event_listeners = [7],
     entries = [(''Type'', PDFName ''Font''), (''Subtype'', PDFName ''Type1''), (''LastChar'', PDFNumber 255)]\<rparr>),
   \<lparr>printed = [], rt_calls = [
      \<lparr>call_value = PDFName ''Font'', call_parent = Some \<lparr>variant = FontType1, parent = Some 0, event_listeners = [7], entries = []\<rparr>,
        call_context = None, call_listeners = [], call_result = Inr (PDFName ''Font'')\<rparr>,
      \<lparr>call_value = PDFName ''Type1'', call_parent = Some \<lparr>variant = FontType1, parent = Some 0, event_listeners = [7], entries = [(''Type'', PDFName ''Font'')]\<rparr>,
        call_context = None, call_listeners = [], call_result = Inr (PDFName ''Type1'')\<rparr>,
      \<lparr>call_value = PDFNumber 0, call_parent = Some \<lparr>variant = FontType1, parent = Some 0, event_listeners = [7], entries = [(''Type'', PDFName ''Font''), (''Subtype'', PDFName ''Type1'')]\<rparr>,
        call_context = None, call_listeners = [], call_result = Inr PDFNull\<rparr>,
      \<lparr>call_value = PDFNumber 255, call_parent = Some \<lparr>variant = FontType1, parent = Some 0, event_listeners = [7], entries = [(''Type'', PDFName ''Font''), (''Subtype'', PDFName ''Type1'')]\<rparr>,
        call_context = None, call_listeners = [], call_result = Inr (PDFNumber 255)\<rparr>]\<rparr>)"
  by (simp add: transform_def example_type1_node_def example_root_transformer_def subtype_name_of_def select_font_def new_font_def)

text \<open>
  C2, as the claim states it, fails: on the Type 1 dictionary, called with the
  listener list \<open>[7]\<close>, each of the four children is handed to the root transformer
  with the empty listener list.
\<close>

theorem child_listeners_counterexample:
  "map call_listeners
     (rt_calls (snd (transform example_root_transformer example_type1_node 0 None [7])))
     = [[], [], [], []]
   \<and> call_listeners
       (hd (rt_calls (snd (transform example_root_transformer example_type1_node 0 None [7]))))
     \<noteq> [7]"
  by (simp add: transform_example)

text \<open>
  C2, amended. For a font dictionary with one of the six known subtypes, every call
  that \<^verbatim>\<open>transform\<close> makes to the root transformer has the empty listener list, the
  context of the caller and, as parent, the new font object, which has the variant of
  the subtype, the parent handed in and exactly the listeners handed in; the values of
  these calls are the values of the pairs other than \<^verbatim>\<open>Parent\<close>, in order, up to
  the call that raised, and all of them when \<^verbatim>\<open>transform\<close> returns; what it
  returns is that font object.
\<close>

theorem children_transformed_without_listeners:
  fixes rt :: "('p, 'l, 'c) root_transformer" and f0 :: "('p, 'l) font_obj"
  assumes "map_of d ''Subtype'' = Some (PDFName s)" and "select_font s = Some f0"
    and "transform rt (PDFDictionary d) p ctx ls = (res, eff)"
  shows "(\<forall>c \<in> set (rt_calls eff).
            call_listeners c = [] \<and> call_context c = ctx
          \<and> (\<exists>g. call_parent c = Some g \<and> variant g = variant f0 \<and> parent g = Some p
                 \<and> event_listeners g = ls))
     \<and> map call_value (rt_calls eff) = take (length (rt_calls eff)) (map snd (child_pairs d))
     \<and> (\<forall>fo. res = Inr fo \<longrightarrow>
            map call_value (rt_calls eff) = map snd (child_pairs d)
          \<and> (\<exists>g. fo = Some g \<and> variant g = variant f0 \<and> parent g = Some p
                 \<and> event_listeners g = ls))"
proof -
  let ?f = "f0\<lparr>parent := Some p, event_listeners := event_listeners f0 @ ls\<rparr>"
  from assms have "convert_pairs rt ctx d (Some ?f) \<lparr>printed = [], rt_calls = []\<rparr> = (res, eff)"
    by (simp add: transform_known)
  from convert_pairs_calls [OF this] select_font_new [OF assms(2)]
  show ?thesis
    by (auto simp: same_font_def) (metis length_map order_refl)
qed

theorem children_transformed_without_listeners_witness:
  "list_all
     (\<lambda>c. call_listeners c = [] \<and> call_context c = None
          \<and> (\<exists>g. call_parent c = Some g \<and> variant g = FontType1 \<and> parent g = Some 0
                 \<and> event_listeners g = [7]))
     (rt_calls (snd (transform example_root_transformer example_type1_node 0 None [7])))
   \<and> map call_value
       (rt_calls (snd (transform example_root_transformer example_type1_node 0 None [7])))
     = [PDFName ''Font'', PDFName ''Type1'', PDFNumber 0, PDFNumber 255]"
proof -
  have a: "map_of [(''Type'', PDFName ''Font''), (''Subtype'', PDFName ''Type1''),
                   (''Parent'', PDFNumber 3), (''FirstChar'', PDFNumber 0),
                   (''LastChar'', PDFNumber 255)] ''Subtype'' = Some (PDFName ''Type1'')"
    by simp
  have b: "select_font ''Type1'' = Some (new_font FontType1 :: (nat, nat) font_obj)"
    by (simp add: select_font_def)
  from children_transformed_without_listeners
         [OF a b transform_example [unfolded example_type1_node_def]]
  show ?thesis
    by (simp add: transform_example new_font_def child_pairs_def)
qed

lemma convert_pairs_entries:
  assumes "convert_pairs rt ctx kvs (Some f) eff = (Inr (Some f1), eff1)"
    and "distinct (map fst kvs)"
    and "\<forall>k \<in> fst ` set kvs. map_of (entries f) k = None"
  shows "\<exists>new. rt_calls eff1 = rt_calls eff @ new
     \<and> (\<forall>k. k \<notin> fst ` set (child_pairs kvs) \<longrightarrow> map_of (entries f1) k = map_of (entries f) k)
     \<and> list_all2 (\<lambda>(k, v) c. call_value c = v
          \<and> (\<exists>r. call_result c = Inr r
                \<and> map_of (entries f1) k = (if r = PDFNull then None else Some r)))
         (child_pairs kvs) new"
  using assms
proof (induction kvs arbitrary: f eff)
  case Nil
  then show ?case by (simp add: child_pairs_def)
next
  case (Cons kv kvs)
  obtain k v where kv: "kv = (k, v)" by (cases kv)
  show ?case
  proof (cases "k = ''Parent''")
    case True
    with Cons.prems kv have "convert_pairs rt ctx kvs (Some f) eff = (Inr (Some f1), eff1)" by simp
    from Cons.IH [OF this] Cons.prems(2,3) show ?thesis using True kv by (simp add: child_pairs_def)
  next
    case False
    let ?c = "\<lparr>call_value = v, call_parent = Some f, call_context = ctx,
               call_listeners = [], call_result = rt v (Some f) ctx []\<rparr>"
    let ?eff = "eff\<lparr>rt_calls := rt_calls eff @ [?c]\<rparr>"
    from Cons.prems(1) kv False obtain r where r: "rt v (Some f) ctx [] = Inr r"
      by (cases "rt v (Some f) ctx []") (simp_all add: Let_def)
    define f' where "f' = (if r \<noteq> PDFNull then f\<lparr>entries := dict_set k r (entries f)\<rparr> else f)"
    from Cons.prems(1) kv False r have run: "convert_pairs rt ctx kvs (Some f') ?eff = (Inr (Some f1), eff1)"
      by (simp add: Let_def f'_def split: if_splits)
    from Cons.prems(2) kv have dist: "distinct (map fst kvs)" and knot: "k \<notin> fst ` set kvs" by auto
    have ent: "map_of (entries f') = (if r \<noteq> PDFNull then (map_of (entries f))(k \<mapsto> r) else map_of (entries f))"
      by (simp add: f'_def map_of_dict_set)
    from Cons.prems(3) knot ent have fresh: "\<forall>k' \<in> fst ` set kvs. map_of (entries f') k' = None"
      by auto
    from Cons.IH [OF run dist fresh] obtain new where new:
      "rt_calls eff1 = rt_calls ?eff @ new"
      "\<forall>k'. k' \<notin> fst ` set (child_pairs kvs) \<longrightarrow> map_of (entries f1) k' = map_of (entries f') k'"
      "list_all2 (\<lambda>(k, v) c. call_value c = v
          \<and> (\<exists>r. call_result c = Inr r
                \<and> map_of (entries f1) k = (if r = PDFNull then None else Some r)))
         (child_pairs kvs) new"
      by blast
    from knot have knot': "k \<notin> fst ` set (child_pairs kvs)"
      by (auto simp: child_pairs_def)
    with new(2) have "map_of (entries f1) k = map_of (entries f') k" by blast
    with ent Cons.prems(3) kv have head: "map_of (entries f1) k = (if r = PDFNull then None else Some r)"
      by auto
    have frame: "\<forall>k'. k' \<notin> fst ` set (child_pairs (kv # kvs)) \<longrightarrow>
        map_of (entries f1) k' = map_of (entries f) k'"
      using new(2) ent kv False by (auto simp: child_pairs_def)
    have "rt_calls eff1 = rt_calls eff @ (?c # new)"
      using new(1) by simp
    moreover have "list_all2 (\<lambda>(k, v) c. call_value c = v
          \<and> (\<exists>r. call_result c = Inr r
                \<and> map_of (entries f1) k = (if r = PDFNull then None else Some r)))
         (child_pairs (kv # kvs)) (?c # new)"
      using new(3) head r kv False by (simp add: child_pairs_def)
    ultimately show ?thesis using frame by blast
  qed
qed

lemma convert_pairs_None:
  "convert_pairs rt ctx kvs None eff = (Inr fo, eff1) \<Longrightarrow> fo = None"
  by (induction kvs arbitrary: eff) (auto simp: Let_def split: if_splits sum.splits)

lemma add_event_listeners_None: "add_event_listeners ls None = Inr fo \<Longrightarrow> fo = None"
  by (cases ls) auto

lemma transform_Some_known:
  fixes rt :: "('p, 'l, 'c) root_transformer"
  assumes "transform rt (PDFDictionary d) p ctx ls = (Inr (Some fo), eff)"
  shows "\<exists>s (f0 :: ('p, 'l) font_obj).
           map_of d ''Subtype'' = Some (PDFName s) \<and> select_font s = Some f0"
proof -
  from assms obtain s where s: "map_of d ''Subtype'' = Some (PDFName s)"
    by (auto simp: transform_def subtype_name_of_def split: option.splits pdf_object.splits)
  have "select_font s \<noteq> (None :: ('p, 'l) font_obj option)"
  proof
    assume n: "select_font s = (None :: ('p, 'l) font_obj option)"
    with assms s obtain x where "add_event_listeners ls None = Inr x"
      and c: "convert_pairs rt ctx d x
                \<lparr>printed = [''Unsupported font type '' @ s], rt_calls = []\<rparr>
              = (Inr (Some fo), eff)"
      by (auto simp: transform_def subtype_name_of_def Let_def split: sum.splits)
    then have "x = None" by (simp add: add_event_listeners_None)
    with c show False by (auto dest: convert_pairs_None)
  qed
  with s show ?thesis by auto
qed

lemma attributes_of_returned_object:
  fixes rt :: "('p, 'l, 'c) root_transformer"
  assumes "transform rt (PDFDictionary d) p ctx ls = (Inr (Some fo), eff)"
    and "distinct (map fst d)"
  shows "list_all2 (\<lambda>(k, v) c. call_value c = v
          \<and> (\<exists>r. call_result c = Inr r
                \<and> map_of (entries fo) k = (if r = PDFNull then None else Some r)))
         (child_pairs d) (rt_calls eff)
     \<and> (\<forall>k. k \<notin> fst ` set (child_pairs d) \<longrightarrow> map_of (entries fo) k = None)"
proof -
  from transform_Some_known [OF assms(1)] obtain s and f0 :: "('p, 'l) font_obj"
    where s: "map_of d ''Subtype'' = Some (PDFName s)" and f0: "select_font s = Some f0"
    by blast
  let ?f = "f0\<lparr>parent := Some p, event_listeners := event_listeners f0 @ ls\<rparr>"
  from assms(1) have run: "convert_pairs rt ctx d (Some ?f) \<lparr>printed = [], rt_calls = []\<rparr> = (Inr (Some fo), eff)"
    by (simp add: transform_known [OF s f0])
  from select_font_new [OF f0] have e: "entries ?f = []"
    by simp
  then have "\<forall>k \<in> fst ` set d. map_of (entries ?f) k = None" by simp
  from convert_pairs_entries [OF run assms(2) this] e
  show ?thesis by auto
qed

lemma convert_pairs_total:
  assumes "\<forall>v g. \<exists>r. rt v g ctx [] = Inr r"
  shows "\<exists>fo eff1. convert_pairs rt ctx kvs (Some f) eff = (Inr (Some fo), eff1)"
proof (induction kvs arbitrary: f eff)
  case Nil
  then show ?case by simp
next
  case (Cons kv kvs)
  obtain k v where kv: "kv = (k, v)" by (cases kv)
  from assms obtain r where r: "rt v (Some f) ctx [] = Inr r" by blast
  show ?case
  proof (cases "k = ''Parent''")
    case True
    with kv Cons.IH [of f eff] show ?thesis by simp
  next
    case False
    show ?thesis
    proof (cases "r = PDFNull")
      case True
      with kv r \<open>k \<noteq> ''Parent''\<close>
        Cons.IH [of f "eff\<lparr>rt_calls := rt_calls eff @
                     [\<lparr>call_value = v, call_parent = Some f, call_context = ctx,
                       call_listeners = [], call_result = Inr r\<rparr>]\<rparr>"]
      show ?thesis by (simp add: Let_def)
    next
      case False
      with kv r \<open>k \<noteq> ''Parent''\<close>
        Cons.IH [of "f\<lparr>entries := dict_set k r (entries f)\<rparr>"
                    "eff\<lparr>rt_calls := rt_calls eff @
                     [\<lparr>call_value = v, call_parent = Some f, call_context = ctx,
                       call_listeners = [], call_result = Inr r\<rparr>]\<rparr>"]
      show ?thesis by (simp add: Let_def)
    qed
  qed
qed

lemma transform_total:
  fixes rt :: "('p, 'l, 'c) root_transformer" and f0 :: "('p, 'l) font_obj"
  assumes "map_of d ''Subtype'' = Some (PDFName s)" and "select_font s = Some f0"
    and "\<forall>v g. \<exists>r. rt v g ctx [] = Inr r"
  shows "\<exists>fo eff. transform rt (PDFDictionary d) p ctx ls = (Inr (Some fo), eff)"
  using convert_pairs_total [of rt ctx, OF assms(3)]
  by (simp add: transform_known [OF assms(1,2)])

text \<open>
  C5. When \<^verbatim>\<open>transform\<close> returns a font object for a dictionary (with distinct
  keys), the pairs of the dictionary other than \<^verbatim>\<open>Parent\<close> and the calls to the
  root transformer correspond one to one, in order: the call was made on the value of
  the pair and returned a value, and the font object has this value as the attribute
  of the key, unless the value is \<^verbatim>\<open>PDFNull\<close>, in which case the font object has no
  attribute of this key. The font object has no attribute of any other key. And
  \<^verbatim>\<open>transform\<close> does return a font object whenever the subtype is one of the six
  known ones and the root transformer returns on the calls made to it.
\<close>

theorem transformed_attributes:
  fixes rt :: "('p, 'l, 'c) root_transformer" and f0 :: "('p, 'l) font_obj"
  assumes "distinct (map fst d)"
  shows
  "(transform rt (PDFDictionary d) p ctx ls = (Inr (Some fo), eff) \<longrightarrow>
      list_all2 (\<lambda>(k, v) c. call_value c = v
          \<and> (\<exists>r. call_result c = Inr r
                \<and> map_of (entries fo) k = (if r = PDFNull then None else Some r)))
         (child_pairs d) (rt_calls eff)
      \<and> (\<forall>k. k \<notin> fst ` set (child_pairs d) \<longrightarrow> map_of (entries fo) k = None))
   \<and> (map_of d ''Subtype'' = Some (PDFName s) \<and> select_font s = Some f0
       \<and> (\<forall>v g. \<exists>r. rt v g ctx [] = Inr r) \<longrightarrow>
      (\<exists>fo1 eff1. transform rt (PDFDictionary d) p ctx ls = (Inr (Some fo1), eff1)))"
proof (intro conjI impI)
  assume "transform rt (PDFDictionary d) p ctx ls = (Inr (Some fo), eff)"
  from attributes_of_returned_object [OF this assms]
  show "list_all2 (\<lambda>(k, v) c. call_value c = v
          \<and> (\<exists>r. call_result c = Inr r
                \<and> map_of (entries fo) k = (if r = PDFNull then None else Some r)))
         (child_pairs d) (rt_calls eff)"
    and "\<forall>k. k \<notin> fst ` set (child_pairs d) \<longrightarrow> map_of (entries fo) k = None"
    by blast+
next
  assume "map_of d ''Subtype'' = Some (PDFName s) \<and> select_font s = Some f0
       \<and> (\<forall>v g. \<exists>r. rt v g ctx [] = Inr r)"
  then show "\<exists>fo1 eff1. transform rt (PDFDictionary d) p ctx ls = (Inr (Some fo1), eff1)"
    using transform_total [of d s f0 rt ctx p ls] by blast
qed

theorem transformed_attributes_witness:
  "\<exists>fo eff.
     transform example_root_transformer example_type1_node 0 None [7] = (Inr (Some fo), eff)
   \<and> entries fo = [(''Type'', PDFName ''Font''), (''Subtype'', PDFName ''Type1''),
                   (''LastChar'', PDFNumber 255)]
   \<and> list_all2 (\<lambda>(k, v) c. call_value c = v
          \<and> (\<exists>r. call_result c = Inr r
                \<and> map_of (entries fo) k = (if r = PDFNull then None else Some r)))
         (child_pairs [(''Type'', PDFName ''Font''), (''Subtype'', PDFName ''Type1''),
                       (''Parent'', PDFNumber 3), (''FirstChar'', PDFNumber 0),
                       (''LastChar'', PDFNumber 255)])
         (rt_calls eff)"
proof -
  have d: "distinct (map fst [(''Type'', PDFName ''Font''), (''Subtype'', PDFName ''Type1''),
                    (''Parent'', PDFNumber 3), (''FirstChar'', PDFNumber 0),
                    (''LastChar'', PDFNumber 255)])"
    by simp
  have s: "map_of [(''Type'', PDFName ''Font''), (''Subtype'', PDFName ''Type1''),
                   (''Parent'', PDFNumber 3), (''FirstChar'', PDFNumber 0),
                   (''LastChar'', PDFNumber 255)] ''Subtype'' = Some (PDFName ''Type1'')"
    by simp
  have v: "select_font ''Type1'' = Some (new_font FontType1 :: (nat, nat) font_obj)"
    by (simp add: select_font_def)
  have t: "\<forall>v g. \<exists>r. example_root_transformer v g None [] = Inr r"
    by (simp add: example_root_transformer_def)
  note inst = transformed_attributes [OF d, of example_root_transformer 0 None "[7]" _ _ "''Type1''"
      "new_font FontType1"]
  from inst s v t obtain fo eff where
    run: "transform example_root_transformer example_type1_node 0 None [7] = (Inr (Some fo), eff)"
    unfolding example_type1_node_def by blast
  with inst [of fo eff] have "list_all2 (\<lambda>(k, v) c. call_value c = v
          \<and> (\<exists>r. call_result c = Inr r
                \<and> map_of (entries fo) k = (if r = PDFNull then None else Some r)))
         (child_pairs [(''Type'', PDFName ''Font''), (''Subtype'', PDFName ''Type1''),
                       (''Parent'', PDFNumber 3), (''FirstChar'', PDFNumber 0),
                       (''LastChar'', PDFNumber 255)])
         (rt_calls eff)"
    unfolding example_type1_node_def by blast
  moreover from run have "entries fo = [(''Type'', PDFName ''Font''), (''Subtype'', PDFName ''Type1''),
                   (''LastChar'', PDFNumber 255)]"
    by (auto simp: transform_example)
  ultimately show ?thesis using run by blast
qed

end
